theory Spec2Isabelle
  imports Main
begin

section \<open>Exceptions\<close>

text \<open>
  The exceptions the two modules raise or let through. A raise is the value \<open>Inl e\<close> of
  a result, or \<open>Some e\<close> where nothing is returned. \<open>IOError\<close> stands for the failures
  of the file system and of the video subsystem.
\<close>

datatype error =
    ValueError
  | KeyError
  | TypeError
  | AttributeError
  | NotImplementedError
  | UnboundLocalError
  | BackgroundSubtractorError
  | IOError

section \<open>eta/core/data.py\<close>

subsection \<open>JSON dictionaries\<close>

text \<open>
  The structured objects \<open>from_dict\<close> reads. A dictionary is an association list whose
  keys are distinct, looked up with \<open>map_of\<close>. Numbers are kept as integers: no function of
  this module reads them.
\<close>

datatype json =
    JNull
  | JBool bool
  | JNum int
  | JStr string
  | JList "json list"
  | JDict "(string \<times> json) list"

text \<open>\<open>d[key]\<close>: only a dictionary can be indexed by a string, and the key must be there.\<close>

definition getitem :: "json \<Rightarrow> string \<Rightarrow> error + json" where
  "getitem d key =
     (case d of
        JDict kvs \<Rightarrow> (case map_of kvs key of None \<Rightarrow> Inl KeyError | Some v \<Rightarrow> Inr v)
      | _ \<Rightarrow> Inl TypeError)"

text \<open>
  \<open>for do in v\<close>: a list yields its elements, a string its characters, a dictionary its
  keys; the other values are not iterable.
\<close>

definition py_iter :: "json \<Rightarrow> error + json list" where
  "py_iter v =
     (case v of
        JList xs \<Rightarrow> Inr xs
      | JStr s \<Rightarrow> Inr (map (\<lambda>c. JStr [c]) s)
      | JDict kvs \<Rightarrow> Inr (map (\<lambda>kv. JStr (fst kv)) kvs)
      | _ \<Rightarrow> Inl TypeError)"

subsection \<open>Container classes\<close>

text \<open>
  A container class is its name and its class attribute \<open>_DATA_CLS\<close>. The record class is
  used through its \<open>from_dict\<close> only, so a bound \<open>_DATA_CLS\<close> is that decoder and \<open>None\<close> is
  the unset attribute of the base class.
\<close>

record 'a cls =
  cls_name :: string
  DATA_CLS :: "(json \<Rightarrow> error + 'a) option"

definition DataContainer :: "'a cls" where
  "DataContainer = \<lparr>cls_name = ''DataContainer'', DATA_CLS = None\<rparr>"

definition validate :: "'a cls \<Rightarrow> error + unit" where
  "validate c = (case DATA_CLS c of None \<Rightarrow> Inl ValueError | Some _ \<Rightarrow> Inr ())"

subsection \<open>The store\<close>

text \<open>
  Lists and container instances are mutable objects, so they live in a store: a list of
  cells, an object's address being its index. Allocation appends a cell and never reuses
  an address. An instance holds its class and the address of the list its \<open>data\<close> attribute
  refers to. The records are immutable values. In Python a reference always denotes a live
  object of the expected kind; at an address that holds none, the operations below answer
  \<open>TypeError\<close>.
\<close>

datatype 'a cell =
    ListObj "'a list"
  | Instance "'a cls" nat

type_synonym 'a heap = "'a cell list"

definition alloc :: "'a heap \<Rightarrow> 'a cell \<Rightarrow> nat \<times> 'a heap" where
  "alloc h c = (length h, h @ [c])"

definition list_at :: "'a heap \<Rightarrow> nat \<Rightarrow> 'a list option" where
  "list_at h a =
     (if a < length h then (case h ! a of ListObj xs \<Rightarrow> Some xs | Instance _ _ \<Rightarrow> None)
      else None)"

definition instance_at :: "'a heap \<Rightarrow> nat \<Rightarrow> ('a cls \<times> nat) option" where
  "instance_at h a =
     (if a < length h then (case h ! a of Instance c l \<Rightarrow> Some (c, l) | ListObj _ \<Rightarrow> None)
      else None)"

text \<open>The records of the container at an address, and its class.\<close>

definition records :: "'a heap \<Rightarrow> nat \<Rightarrow> 'a list option" where
  "records h a = (case instance_at h a of None \<Rightarrow> None | Some (c, l) \<Rightarrow> list_at h l)"

definition class_of :: "'a heap \<Rightarrow> nat \<Rightarrow> 'a cls option" where
  "class_of h a = (case instance_at h a of None \<Rightarrow> None | Some (c, l) \<Rightarrow> Some c)"

subsection \<open>DataContainer\<close>

text \<open>
  \<open>__init__(self, data=None)\<close>: \<open>_validate\<close> first, then \<open>self.data = data or []\<close>. The
  argument is \<open>None\<close> or the address of a list; an empty list is falsy, so a fresh empty
  list is stored for it, and a non-empty list is stored as it is (shared with the caller).
  The instance is allocated when the constructor succeeds.
\<close>

definition init :: "'a heap \<Rightarrow> 'a cls \<Rightarrow> nat option \<Rightarrow> (error + nat) \<times> 'a heap" where
  "init h c data =
     (case validate c of
        Inl e \<Rightarrow> (Inl e, h)
      | Inr _ \<Rightarrow>
          (case data of
             None \<Rightarrow>
               (let (l, h1) = alloc h (ListObj []); (a, h2) = alloc h1 (Instance c l)
                in (Inr a, h2))
           | Some d \<Rightarrow>
               (case list_at h d of
                  None \<Rightarrow> (Inl TypeError, h)
                | Some [] \<Rightarrow>
                    (let (l, h1) = alloc h (ListObj []); (a, h2) = alloc h1 (Instance c l)
                     in (Inr a, h2))
                | Some (x # xs) \<Rightarrow>
                    (let (a, h2) = alloc h (Instance c d) in (Inr a, h2)))))"

text \<open>\<open>num\<close> and \<open>add\<close>: the length of the list, and an append to it in place.\<close>

definition num :: "'a heap \<Rightarrow> nat \<Rightarrow> error + nat" where
  "num h self = (case records h self of None \<Rightarrow> Inl TypeError | Some xs \<Rightarrow> Inr (length xs))"

definition add :: "'a heap \<Rightarrow> nat \<Rightarrow> 'a \<Rightarrow> (error + unit) \<times> 'a heap" where
  "add h self x =
     (case instance_at h self of
        None \<Rightarrow> (Inl TypeError, h)
      | Some (c, l) \<Rightarrow>
          (case list_at h l of
             None \<Rightarrow> (Inl TypeError, h)
           | Some xs \<Rightarrow> (Inr (), h[l := ListObj (xs @ [x])])))"

text \<open>
  The combinators \<open>any\<close> and \<open>all\<close> on the outputs of the filters. A filter is a function
  from a record to \<open>True\<close>/\<open>False\<close>, as the docstring has it: it returns, and it does not
  change the record, so the laziness of the generator is not visible.
\<close>

fun py_any :: "bool list \<Rightarrow> bool" where
  "py_any [] = False"
| "py_any (b # bs) = (if b then True else py_any bs)"

fun py_all :: "bool list \<Rightarrow> bool" where
  "py_all [] = True"
| "py_all (b # bs) = (if b then py_all bs else False)"

text \<open>
  \<open>get_matches(self, filters, match=any)\<close>: the list built by \<open>list(filter(...))\<close> is a new
  object, handed to the constructor of the receiver's class.
\<close>

definition get_matches ::
  "'a heap \<Rightarrow> nat \<Rightarrow> ('a \<Rightarrow> bool) list \<Rightarrow> (bool list \<Rightarrow> bool) \<Rightarrow> (error + nat) \<times> 'a heap" where
  "get_matches h self filters match =
     (case instance_at h self of
        None \<Rightarrow> (Inl TypeError, h)
      | Some (c, l) \<Rightarrow>
          (case list_at h l of
             None \<Rightarrow> (Inl TypeError, h)
           | Some xs \<Rightarrow>
               (let (l', h1) =
                      alloc h (ListObj (filter (\<lambda>x. match (map (\<lambda>f. f x) filters)) xs))
                in init h1 c (Some l'))))"

text \<open>\<open>count_matches\<close>: \<open>len(self.get_matches(filters, match=match).data)\<close>.\<close>

definition count_matches ::
  "'a heap \<Rightarrow> nat \<Rightarrow> ('a \<Rightarrow> bool) list \<Rightarrow> (bool list \<Rightarrow> bool) \<Rightarrow> (error + nat) \<times> 'a heap" where
  "count_matches h self filters match =
     (case get_matches h self filters match of
        (Inl e, h') \<Rightarrow> (Inl e, h')
      | (Inr a, h') \<Rightarrow>
          (case records h' a of
             None \<Rightarrow> (Inl TypeError, h')
           | Some ys \<Rightarrow> (Inr (length ys), h')))"

text \<open>
  \<open>from_dict(cls, d)\<close>: \<open>_validate\<close>, then \<open>d["data"]\<close>, then the list comprehension, which
  stops at the first record that does not decode, then the constructor.
\<close>

fun decode_all :: "(json \<Rightarrow> error + 'a) \<Rightarrow> json list \<Rightarrow> error + 'a list" where
  "decode_all dec [] = Inr []"
| "decode_all dec (j # js) =
     (case dec j of
        Inl e \<Rightarrow> Inl e
      | Inr x \<Rightarrow> (case decode_all dec js of Inl e \<Rightarrow> Inl e | Inr xs \<Rightarrow> Inr (x # xs)))"

definition from_dict :: "'a heap \<Rightarrow> 'a cls \<Rightarrow> json \<Rightarrow> (error + nat) \<times> 'a heap" where
  "from_dict h c d =
     (case DATA_CLS c of
        None \<Rightarrow> (Inl ValueError, h)
      | Some dec \<Rightarrow>
          (case getitem d ''data'' of
             Inl e \<Rightarrow> (Inl e, h)
           | Inr v \<Rightarrow>
               (case py_iter v of
                  Inl e \<Rightarrow> (Inl e, h)
                | Inr js \<Rightarrow>
                    (case decode_all dec js of
                       Inl e \<Rightarrow> (Inl e, h)
                     | Inr xs \<Rightarrow>
                         (let (l, h1) = alloc h (ListObj xs) in init h1 c (Some l))))))"

text \<open>
  \<open>NamedRelativePoint.from_dict\<close> and \<open>LocalizedTags\<close>. \<open>RelativePoint\<close> belongs to
  \<open>eta.core.geometry\<close> and \<open>str\<close> to the builtins, so the decoder takes both as
  parameters. The arguments of the constructor are evaluated from left to right.
\<close>

record 'p NamedRelativePoint =
  label :: string
  relative_point :: 'p

definition NamedRelativePoint_from_dict ::
  "(json \<Rightarrow> string) \<Rightarrow> (json \<Rightarrow> error + 'p) \<Rightarrow> json \<Rightarrow> error + 'p NamedRelativePoint" where
  "NamedRelativePoint_from_dict py_str RelativePoint_from_dict d =
     (case getitem d ''label'' of
        Inl e \<Rightarrow> Inl e
      | Inr l \<Rightarrow>
          (case getitem d ''relative_point'' of
             Inl e \<Rightarrow> Inl e
           | Inr r \<Rightarrow>
               (case RelativePoint_from_dict r of
                  Inl e \<Rightarrow> Inl e
                | Inr p \<Rightarrow> Inr \<lparr>label = py_str l, relative_point = p\<rparr>)))"

definition LocalizedTags ::
  "(json \<Rightarrow> string) \<Rightarrow> (json \<Rightarrow> error + 'p) \<Rightarrow> 'p NamedRelativePoint cls" where
  "LocalizedTags py_str RelativePoint_from_dict =
     \<lparr>cls_name = ''LocalizedTags'',
      DATA_CLS = Some (NamedRelativePoint_from_dict py_str RelativePoint_from_dict)\<rparr>"

definition label_set :: "'p NamedRelativePoint heap \<Rightarrow> nat \<Rightarrow> string set option" where
  "label_set h self = map_option (\<lambda>xs. set (map label xs)) (records h self)"

subsection \<open>What the properties speak of\<close>

text \<open>
  A usable receiver: an instance of a class with a bound record type whose \<open>data\<close> is a
  list. The constructor makes no other instance.
\<close>

definition is_container :: "'a heap \<Rightarrow> nat \<Rightarrow> bool" where
  "is_container h self =
     (case instance_at h self of
        None \<Rightarrow> False
      | Some (c, l) \<Rightarrow> DATA_CLS c \<noteq> None \<and> list_at h l \<noteq> None)"

text \<open>The records of the container \<open>get_matches\<close> returns, \<open>None\<close> when it raises.\<close>

definition matches ::
  "'a heap \<Rightarrow> nat \<Rightarrow> ('a \<Rightarrow> bool) list \<Rightarrow> (bool list \<Rightarrow> bool) \<Rightarrow> 'a list option" where
  "matches h self filters match =
     (case get_matches h self filters match of
        (Inl e, h') \<Rightarrow> None
      | (Inr a, h') \<Rightarrow> records h' a)"

text \<open>The records matched under \<open>all\<close> are among the records matched under \<open>any\<close>.\<close>

definition all_within_any :: "'a heap \<Rightarrow> nat \<Rightarrow> ('a \<Rightarrow> bool) list \<Rightarrow> bool" where
  "all_within_any h self filters =
     (case (matches h self filters py_all, matches h self filters py_any) of
        (Some ys, Some zs) \<Rightarrow> set ys \<subseteq> set zs
      | _ \<Rightarrow> False)"

text \<open>
  The container class of the examples: \<open>LocalizedTags\<close> with labels that are JSON strings,
  which \<open>str\<close> leaves as they are, and with relative points kept as the objects they are
  read from. Its store holds the list \<open>[left, right]\<close> at address 0 and the container at
  address 1.
\<close>

definition Tags :: "json NamedRelativePoint cls" where
  "Tags = LocalizedTags (\<lambda>j. case j of JStr s \<Rightarrow> s | _ \<Rightarrow> []) Inr"

definition tag_left :: "json NamedRelativePoint" where
  "tag_left = \<lparr>label = ''left'', relative_point = JList [JNum 0, JNum 1]\<rparr>"

definition tag_right :: "json NamedRelativePoint" where
  "tag_right = \<lparr>label = ''right'', relative_point = JList [JNum 1, JNum 1]\<rparr>"

definition tags_heap :: "json NamedRelativePoint heap" where
  "tags_heap = [ListObj [tag_left, tag_right], Instance Tags 0]"

definition is_left :: "json NamedRelativePoint \<Rightarrow> bool" where
  "is_left t = (label t = ''left'')"

definition is_right :: "json NamedRelativePoint \<Rightarrow> bool" where
  "is_right t = (label t = ''right'')"

section \<open>eta/core/primitives.py\<close>

subsection \<open>The run of a pipeline\<close>

text \<open>
  The video subsystem, the file system and \<open>numpy\<close> are outside the module. A run is
  observed through the calls it makes to them, in order: the trace. A call is logged when
  it returns; a call that raises logs nothing and its exception takes the place of the
  result. The frames and the arrays handed to the sinks are not part of an event: the
  frame number stands for them. The encoding of a payload (\<open>cartToPolar\<close>, the
  masking of the frame, \<open>cvtColor\<close>, \<open>drawKeypoints\<close>, \<open>_unpack_keypoints\<close>, the
  interpolation of the path template) is part of the sink call that follows it, and
  fails with it.
\<close>

datatype handle = Reader | FgWriter | BgWriter | OutWriter

datatype event =
    EnsureBasedir string
  | Open handle string
  | Reset
  | Read nat
  | ProcessFrame nat
  | Save string nat
  | Write handle nat
  | Close handle

text \<open>
  The world of a run: the frames of the video at a path, and for each call whether it
  raises. The outcome of a call depends on the call only: within a run the same call is
  not made twice with different data, except for two array sinks given the same
  template.
\<close>

record 'f world =
  video :: "string \<Rightarrow> 'f list"
  fails :: "event \<Rightarrow> error option"

text \<open>
  A statement runs on the fields of the algorithm object and the trace so far, and ends
  normally (\<open>None\<close>) or with an exception.
\<close>

type_synonym 's comp = "'s \<times> event list \<Rightarrow> error option \<times> ('s \<times> event list)"

definition skip :: "'s comp" where
  "skip \<sigma> = (None, \<sigma>)"

definition raise :: "error \<Rightarrow> 's comp" where
  "raise e \<sigma> = (Some e, \<sigma>)"

definition act :: "'f world \<Rightarrow> event \<Rightarrow> 's comp" where
  "act w e \<sigma> =
     (case fails w e of
        Some err \<Rightarrow> (Some err, \<sigma>)
      | None \<Rightarrow> (None, (fst \<sigma>, snd \<sigma> @ [e])))"

definition seq :: "'s comp \<Rightarrow> 's comp \<Rightarrow> 's comp" where
  "seq m k \<sigma> = (case m \<sigma> of (None, \<sigma>') \<Rightarrow> k \<sigma>' | (Some e, \<sigma>') \<Rightarrow> (Some e, \<sigma>'))"

text \<open>
  \<open>try: m finally: k\<close>: the clean-up runs on every exit of \<open>m\<close>; an exception of the
  clean-up replaces the pending one.
\<close>

definition try_finally :: "'s comp \<Rightarrow> 's comp \<Rightarrow> 's comp" where
  "try_finally m k \<sigma> =
     (case m \<sigma> of
        (r, \<sigma>') \<Rightarrow> (case k \<sigma>' of (None, \<sigma>'') \<Rightarrow> (r, \<sigma>'') | (Some e, \<sigma>'') \<Rightarrow> (Some e, \<sigma>'')))"

text \<open>
  \<open>if path: ...\<close> on an optional path argument: \<open>None\<close> and the empty string are falsy.
\<close>

fun truthy :: "string option \<Rightarrow> bool" where
  "truthy None = False"
| "truthy (Some p) = (p \<noteq> [])"

fun if_path :: "string option \<Rightarrow> (string \<Rightarrow> 's comp) \<Rightarrow> 's comp" where
  "if_path None f = skip"
| "if_path (Some p) f = (if p = [] then skip else f p)"

text \<open>
  \<open>for img in r\<close>: the frames in stream order, numbered from 1 (\<open>frame_number\<close>). Reading
  a frame is a call to the reader and may raise.
\<close>

fun for_frames :: "'f world \<Rightarrow> nat \<Rightarrow> 'f list \<Rightarrow> (nat \<Rightarrow> 'f \<Rightarrow> 's comp) \<Rightarrow> 's comp" where
  "for_frames w n [] body = skip"
| "for_frames w n (img # imgs) body =
     seq (act w (Read n)) (seq (body n img) (for_frames w (Suc n) imgs body))"

text \<open>
  The methods a family's subclass overrides. \<open>_reset\<close> changes the object or raises;
  \<open>_process_frame\<close> returns the result for a frame or raises, and may have changed the
  object by then.
\<close>

record ('f, 's, 'r) algorithm =
  reset :: "'s \<Rightarrow> error option \<times> 's"
  process_frame :: "'s \<Rightarrow> 'f \<Rightarrow> (error + 'r) \<times> 's"

text \<open>The base classes: \<open>_reset\<close> passes, \<open>_process_frame\<close> is not implemented.\<close>

definition base_algorithm :: "('f, 's, 'r) algorithm" where
  "base_algorithm =
     \<lparr>reset = (\<lambda>s. (None, s)), process_frame = (\<lambda>s img. (Inl NotImplementedError, s))\<rparr>"

definition call_reset :: "('f, 's, 'r) algorithm \<Rightarrow> 's comp" where
  "call_reset alg \<sigma> =
     (case reset alg (fst \<sigma>) of
        (Some e, s') \<Rightarrow> (Some e, (s', snd \<sigma>))
      | (None, s') \<Rightarrow> (None, (s', snd \<sigma> @ [Reset])))"

definition call_process_frame :: "('f, 's, 'r) algorithm \<Rightarrow> nat \<Rightarrow> 'f \<Rightarrow> 's comp" where
  "call_process_frame alg n img \<sigma> =
     (case process_frame alg (fst \<sigma>) img of
        (Inl e, s') \<Rightarrow> (Some e, (s', snd \<sigma>))
      | (Inr r, s') \<Rightarrow> (None, (s', snd \<sigma> @ [ProcessFrame n])))"

subsection \<open>VideoProcessor\<close>

text \<open>
  Modelled from the spec: \<open>etav.VideoProcessor\<close> (in \<open>eta/core/video.py\<close>, which is not
  among the sources). Entering it opens the input stream and, if a visualization video is
  requested, the output video bound to the input (steps 3 of the pipeline); iterating it
  yields the frames in stream order with their 1-based index (step 4); leaving it, on normal
  completion or on an error of the iteration, releases the sink and the input stream, in
  reverse order of acquisition (step 5).
\<close>

definition with_VideoProcessor ::
  "'f world \<Rightarrow> string \<Rightarrow> string option \<Rightarrow> (nat \<Rightarrow> 'f \<Rightarrow> 's comp) \<Rightarrow> 's comp" where
  "with_VideoProcessor w input_path out_single_vidpath body =
     seq (act w (Open Reader input_path))
    (seq (if_path out_single_vidpath (\<lambda>p. act w (Open OutWriter p)))
         (try_finally
            (for_frames w 1 (video w input_path) body)
            (seq (if_path out_single_vidpath (\<lambda>p. act w (Close OutWriter)))
                 (act w (Close Reader)))))"

subsection \<open>DenseOpticalFlow\<close>

definition DenseOpticalFlow_process ::
  "'f world \<Rightarrow> ('f, 's, 'r) algorithm \<Rightarrow> string \<Rightarrow> string option \<Rightarrow> string option \<Rightarrow>
     string option \<Rightarrow> 's comp" where
  "DenseOpticalFlow_process w self input_path cart_path polar_path vid_path =
     seq (if_path cart_path (\<lambda>p. act w (EnsureBasedir p)))
    (seq (if_path polar_path (\<lambda>p. act w (EnsureBasedir p)))
    (seq (call_reset self)
         (with_VideoProcessor w input_path vid_path (\<lambda>n img.
            seq (call_process_frame self n img)
           (seq (if_path cart_path (\<lambda>p. act w (Save p n)))
                (if \<not> truthy polar_path \<and> \<not> truthy vid_path then skip
                 else seq (if_path polar_path (\<lambda>p. act w (Save p n)))
                          (if_path vid_path (\<lambda>p. act w (Write OutWriter n)))))))))"

text \<open>
  \<open>FarnebackDenseOpticalFlow\<close>. The tuning parameters are passed on to OpenCV as they
  are; \<open>'x\<close> is the type of the floating-point ones. OpenCV's colour conversion, flow
  function and flag constant are parameters. In \<open>_process_frame\<close>, \<open>prev\<close> is the value of
  \<open>self._prev_frame\<close> after the \<open>if\<close>: the current frame when there was none.
\<close>

record ('x, 'g) farneback =
  pyramid_scale :: 'x
  pyramid_levels :: int
  window_size :: int
  iterations :: int
  poly_n :: int
  poly_sigma :: 'x
  use_gaussian_filter :: bool
  prev_frame :: "'g option"
  flags :: int

record ('f, 'x, 'g, 'r) cv2_flow =
  cvtColor_BGR2GRAY :: "'f \<Rightarrow> error + 'g"
  calcOpticalFlowFarneback ::
    "'g \<Rightarrow> 'g \<Rightarrow> 'x \<Rightarrow> int \<Rightarrow> int \<Rightarrow> int \<Rightarrow> int \<Rightarrow> 'x \<Rightarrow> int \<Rightarrow> error + 'r"
  OPTFLOW_FARNEBACK_GAUSSIAN :: int

definition Farneback_init ::
  "('f, 'x, 'g, 'r) cv2_flow \<Rightarrow> 'x \<Rightarrow> int \<Rightarrow> int \<Rightarrow> int \<Rightarrow> int \<Rightarrow> 'x \<Rightarrow> bool \<Rightarrow> ('x, 'g) farneback" where
  "Farneback_init cv ps pl ws it pn sg gf =
     \<lparr>pyramid_scale = ps, pyramid_levels = pl, window_size = ws, iterations = it,
      poly_n = pn, poly_sigma = sg, use_gaussian_filter = gf, prev_frame = None,
      flags = (if gf then OPTFLOW_FARNEBACK_GAUSSIAN cv else 0)\<rparr>"

definition Farneback_process_frame ::
  "('f, 'x, 'g, 'r) cv2_flow \<Rightarrow> ('x, 'g) farneback \<Rightarrow> 'f \<Rightarrow> (error + 'r) \<times> ('x, 'g) farneback" where
  "Farneback_process_frame cv s img =
     (case cvtColor_BGR2GRAY cv img of
        Inl e \<Rightarrow> (Inl e, s)
      | Inr curr_frame \<Rightarrow>
          (let prev = (case prev_frame s of None \<Rightarrow> curr_frame | Some g \<Rightarrow> g);
               s1 = s\<lparr>prev_frame := Some prev\<rparr>
           in case calcOpticalFlowFarneback cv prev curr_frame (pyramid_scale s)
                     (pyramid_levels s) (window_size s) (iterations s) (poly_n s)
                     (poly_sigma s) (flags s) of
                Inl e \<Rightarrow> (Inl e, s1)
              | Inr flow_cart \<Rightarrow> (Inr flow_cart, s1\<lparr>prev_frame := Some curr_frame\<rparr>)))"

definition Farneback_reset :: "('x, 'g) farneback \<Rightarrow> error option \<times> ('x, 'g) farneback" where
  "Farneback_reset s = (None, s\<lparr>prev_frame := None\<rparr>)"

definition FarnebackDenseOpticalFlow ::
  "('f, 'x, 'g, 'r) cv2_flow \<Rightarrow> ('f, ('x, 'g) farneback, 'r) algorithm" where
  "FarnebackDenseOpticalFlow cv =
     \<lparr>reset = Farneback_reset, process_frame = Farneback_process_frame cv\<rparr>"

subsection \<open>BackgroundSubtractor\<close>

text \<open>
  \<open>fgw.close()\<close> and \<open>bgw.close()\<close> in the \<open>finally\<close> block read a local variable that
  is assigned by the writer's constructor only. The run starts on an empty trace, so the
  variable is bound when the trace has the writer's \<open>Open\<close>.
\<close>

definition bound :: "handle \<Rightarrow> event list \<Rightarrow> bool" where
  "bound h tr = list_ex (\<lambda>e. case e of Open h' p \<Rightarrow> h' = h | _ \<Rightarrow> False) tr"

definition close_var :: "'f world \<Rightarrow> handle \<Rightarrow> 's comp" where
  "close_var w h \<sigma> = (if bound h (snd \<sigma>) then act w (Close h) \<sigma> else raise UnboundLocalError \<sigma>)"

text \<open>
  \<open>BackgroundSubtractor.process\<close>. The reader is constructed before the \<open>try\<close>; the
  \<open>finally\<close> block closes the two writers and nothing else.
\<close>

definition BackgroundSubtractor_process ::
  "'f world \<Rightarrow> ('f, 's, 'r) algorithm \<Rightarrow> string \<Rightarrow> string option \<Rightarrow> string option \<Rightarrow>
     string option \<Rightarrow> 's comp" where
  "BackgroundSubtractor_process w self input_path fgmask_path fgvid_path bgvid_path =
     seq (if_path fgmask_path (\<lambda>p. act w (EnsureBasedir p)))
    (seq (act w (Open Reader input_path))
         (try_finally
            (seq (if_path fgvid_path (\<lambda>p. act w (Open FgWriter p)))
            (seq (if_path bgvid_path (\<lambda>p. act w (Open BgWriter p)))
            (seq (call_reset self)
                 (for_frames w 1 (video w input_path) (\<lambda>n img.
                    seq (call_process_frame self n img)
                   (seq (if_path fgmask_path (\<lambda>p. act w (Save p n)))
                   (seq (if_path fgvid_path (\<lambda>p. act w (Write FgWriter n)))
                        (if_path bgvid_path (\<lambda>p. act w (Write BgWriter n))))))))))
            (seq (if_path fgvid_path (\<lambda>p. close_var w FgWriter))
                 (if_path bgvid_path (\<lambda>p. close_var w BgWriter)))))"

text \<open>
  \<open>MOG2BackgroundSubtractor\<close> and \<open>KNNBackgroundSubtractor\<close>. OpenCV is a parameter: the
  two factory functions, which raise \<open>AttributeError\<close> where the backend has none
  (OpenCV 2), and the two methods of the model they return. \<open>'x\<close> is the type of the
  floating-point parameters, \<open>'m\<close> of the model, \<open>'k\<close> of the mask. A method called on
  \<open>_fgbg = None\<close> raises \<open>AttributeError\<close>.
\<close>

record ('x, 'm) subtractor =
  history :: int
  threshold :: 'x
  learning_rate :: 'x
  detect_shadows :: bool
  fgbg :: "'m option"

record ('f, 'x, 'm, 'k) cv2_bg =
  createBackgroundSubtractorMOG2 :: "int \<Rightarrow> 'x \<Rightarrow> bool \<Rightarrow> error + 'm"
  createBackgroundSubtractorKNN :: "int \<Rightarrow> 'x \<Rightarrow> bool \<Rightarrow> error + 'm"
  apply_model :: "'m \<Rightarrow> 'f \<Rightarrow> 'x \<Rightarrow> error + ('k \<times> 'm)"
  getBackgroundImage :: "'m \<Rightarrow> error + 'f"

definition subtractor_init :: "int \<Rightarrow> 'x \<Rightarrow> 'x \<Rightarrow> bool \<Rightarrow> ('x, 'm) subtractor" where
  "subtractor_init h t lr ds =
     \<lparr>history = h, threshold = t, learning_rate = lr, detect_shadows = ds, fgbg = None\<rparr>"

definition subtractor_process_frame ::
  "('f, 'x, 'm, 'k) cv2_bg \<Rightarrow> ('x, 'm) subtractor \<Rightarrow> 'f \<Rightarrow> (error + 'k \<times> 'f) \<times> ('x, 'm) subtractor" where
  "subtractor_process_frame cv s img =
     (case fgbg s of
        None \<Rightarrow> (Inl AttributeError, s)
      | Some m \<Rightarrow>
          (case apply_model cv m img (learning_rate s) of
             Inl e \<Rightarrow> (Inl e, s)
           | Inr (fgmask, m') \<Rightarrow>
               (case getBackgroundImage cv m' of
                  Inl e \<Rightarrow> (Inl e, s\<lparr>fgbg := Some m'\<rparr>)
                | Inr bgimg \<Rightarrow> (Inr (fgmask, bgimg), s\<lparr>fgbg := Some m'\<rparr>))))"

definition MOG2_reset ::
  "('f, 'x, 'm, 'k) cv2_bg \<Rightarrow> ('x, 'm) subtractor \<Rightarrow> error option \<times> ('x, 'm) subtractor" where
  "MOG2_reset cv s =
     (case createBackgroundSubtractorMOG2 cv (history s) (threshold s) (detect_shadows s) of
        Inl e \<Rightarrow> (if e = AttributeError then (Some BackgroundSubtractorError, s) else (Some e, s))
      | Inr m \<Rightarrow> (None, s\<lparr>fgbg := Some m\<rparr>))"

definition KNN_reset ::
  "('f, 'x, 'm, 'k) cv2_bg \<Rightarrow> ('x, 'm) subtractor \<Rightarrow> error option \<times> ('x, 'm) subtractor" where
  "KNN_reset cv s =
     (case createBackgroundSubtractorKNN cv (history s) (threshold s) (detect_shadows s) of
        Inl e \<Rightarrow> (if e = AttributeError then (Some BackgroundSubtractorError, s) else (Some e, s))
      | Inr m \<Rightarrow> (None, s\<lparr>fgbg := Some m\<rparr>))"

definition MOG2BackgroundSubtractor ::
  "('f, 'x, 'm, 'k) cv2_bg \<Rightarrow> ('f, ('x, 'm) subtractor, 'k \<times> 'f) algorithm" where
  "MOG2BackgroundSubtractor cv =
     \<lparr>reset = MOG2_reset cv, process_frame = subtractor_process_frame cv\<rparr>"

definition KNNBackgroundSubtractor ::
  "('f, 'x, 'm, 'k) cv2_bg \<Rightarrow> ('f, ('x, 'm) subtractor, 'k \<times> 'f) algorithm" where
  "KNNBackgroundSubtractor cv =
     \<lparr>reset = KNN_reset cv, process_frame = subtractor_process_frame cv\<rparr>"

subsection \<open>EdgeDetector and FeaturePointDetector\<close>

definition EdgeDetector_process ::
  "'f world \<Rightarrow> ('f, 's, 'r) algorithm \<Rightarrow> string \<Rightarrow> string option \<Rightarrow> string option \<Rightarrow> 's comp" where
  "EdgeDetector_process w self input_path masks_path vid_path =
     seq (if_path masks_path (\<lambda>p. act w (EnsureBasedir p)))
    (seq (call_reset self)
         (with_VideoProcessor w input_path vid_path (\<lambda>n img.
            seq (call_process_frame self n img)
           (seq (if_path masks_path (\<lambda>p. act w (Save p n)))
                (if_path vid_path (\<lambda>p. act w (Write OutWriter n)))))))"

definition FeaturePointDetector_process ::
  "'f world \<Rightarrow> ('f, 's, 'r) algorithm \<Rightarrow> string \<Rightarrow> string option \<Rightarrow> string option \<Rightarrow> 's comp" where
  "FeaturePointDetector_process w self input_path coords_path vid_path =
     seq (if_path coords_path (\<lambda>p. act w (EnsureBasedir p)))
    (seq (call_reset self)
         (with_VideoProcessor w input_path vid_path (\<lambda>n img.
            seq (call_process_frame self n img)
           (seq (if_path coords_path (\<lambda>p. act w (Save p n)))
                (if_path vid_path (\<lambda>p. act w (Write OutWriter n)))))))"

subsection \<open>What the properties speak of\<close>

text \<open>
  A call of \<open>process\<close> starts on an empty trace; its outcome is the exception, if any, and
  the trace.
\<close>

definition run :: "'s comp \<Rightarrow> 's \<Rightarrow> error option \<times> event list" where
  "run m s = (case m (s, []) of (r, (s', tr)) \<Rightarrow> (r, tr))"

text \<open>The events of the iteration: a frame read, processed, saved or written.\<close>

fun is_frame_event :: "event \<Rightarrow> bool" where
  "is_frame_event (Read n) = True"
| "is_frame_event (ProcessFrame n) = True"
| "is_frame_event (Save p n) = True"
| "is_frame_event (Write h n) = True"
| "is_frame_event e = False"








text \<open>
  The directory of a path is ensured before the stream is touched: \<open>EnsureBasedir p\<close>
  comes before the first event on the input stream or on a frame, if there is one.
\<close>

fun is_stream_event :: "event \<Rightarrow> bool" where
  "is_stream_event (Open h p) = True"
| "is_stream_event (Close h) = True"
| "is_stream_event e = is_frame_event e"

fun ensured_before_stream :: "string \<Rightarrow> event list \<Rightarrow> bool" where
  "ensured_before_stream p [] = True"
| "ensured_before_stream p (e # es) =
     (if e = EnsureBasedir p then True
      else if is_stream_event e then False
      else ensured_before_stream p es)"

text \<open>
  The outcome of a run ensures the directory of \<open>p\<close> first: before the stream is touched,
  and in any case when the run completes normally.
\<close>

definition dir_ensured_first :: "string \<Rightarrow> error option \<times> event list \<Rightarrow> bool" where
  "dir_ensured_first p out =
     (ensured_before_stream p (snd out) \<and> (fst out = None \<longrightarrow> EnsureBasedir p \<in> set (snd out)))"

text \<open>
  A statement only extends the trace, by events that satisfy \<open>P\<close>.
\<close>

definition emits :: "(event \<Rightarrow> bool) \<Rightarrow> 's comp \<Rightarrow> bool" where
  "emits P m = (\<forall>\<sigma>. \<exists>r s' tr'. m \<sigma> = (r, (s', snd \<sigma> @ tr')) \<and> list_all P tr')"

text \<open>
  The worlds of the examples: a video of two frames at every path; nothing fails in the
  first, the background writer fails on the second frame in the other. The backend
  \<open>opencv2\<close> has no factory functions.
\<close>

definition calm :: "int world" where
  "calm = \<lparr>video = (\<lambda>p. [10, 20]), fails = (\<lambda>e. None)\<rparr>"


definition opencv2 :: "(int, int, unit, int) cv2_bg" where
  "opencv2 =
     \<lparr>createBackgroundSubtractorMOG2 = (\<lambda>h t d. Inl AttributeError),
      createBackgroundSubtractorKNN = (\<lambda>h t d. Inl AttributeError),
      apply_model = (\<lambda>m img lr. Inl AttributeError),
      getBackgroundImage = (\<lambda>m. Inl AttributeError)\<rparr>"


text \<open>
  A stand-in for OpenCV's grey conversion and flow in the examples: a frame is a number,
  its grey image is itself, and the flow is the difference of the two frames.
\<close>

definition toy_flow :: "(int, int, int, int) cv2_flow" where
  "toy_flow =
     \<lparr>cvtColor_BGR2GRAY = Inr,
      calcOpticalFlowFarneback = (\<lambda>prev curr ps pl ws it pn sg fl. Inr (curr - prev)),
      OPTFLOW_FARNEBACK_GAUSSIAN = 256\<rparr>"

section \<open>Properties of the containers\<close>

subsection \<open>The store under allocation\<close>

lemma list_at_append: "a < length h \<Longrightarrow> list_at (h @ k) a = list_at h a"
  by (simp add: list_at_def nth_append)

lemma instance_at_append: "a < length h \<Longrightarrow> instance_at (h @ k) a = instance_at h a"
  by (simp add: instance_at_def nth_append)

lemma list_at_new: "list_at (h @ ListObj xs # k) (length h) = Some xs"
  by (simp add: list_at_def nth_append)

lemma instance_at_new: "instance_at (h @ Instance c l # k) (length h) = Some (c, l)"
  by (simp add: instance_at_def nth_append)

lemma list_at_bound: "list_at h a = Some xs \<Longrightarrow> a < length h"
  by (simp add: list_at_def split: if_splits)

lemma instance_at_bound: "instance_at h a = Some cl \<Longrightarrow> a < length h"
  by (simp add: instance_at_def split: if_splits)

text \<open>The constructor on a list of the store: a new instance, nothing else changed.\<close>

lemma init_some:
  assumes "DATA_CLS c = Some dec" and "list_at h d = Some xs"
  shows "\<exists>a l k. init h c (Some d) = (Inr a, h @ k) \<and> length h \<le> a
           \<and> instance_at (h @ k) a = Some (c, l) \<and> (l = d \<or> length h \<le> l)
           \<and> list_at (h @ k) l = Some xs"
proof (cases xs)
  case Nil
  have i: "instance_at ((h @ [ListObj []]) @ [Instance c (length h)]) (length (h @ [ListObj []]))
             = Some (c, length h)"
    by (rule instance_at_new)
  have l: "list_at (h @ [ListObj [], Instance c (length h)]) (length h) = Some []"
    by (rule list_at_new)
  have "init h c (Some d) = (Inr (Suc (length h)), h @ [ListObj [], Instance c (length h)])"
    using assms Nil by (simp add: init_def validate_def alloc_def)
  then show ?thesis using i l Nil by auto
next
  case (Cons y ys)
  have d: "d < length h" using assms(2) by (rule list_at_bound)
  have i: "instance_at (h @ [Instance c d]) (length h) = Some (c, d)"
    by (rule instance_at_new)
  have l: "list_at (h @ [Instance c d]) d = Some xs"
    using d assms(2) by (simp add: list_at_append)
  have "init h c (Some d) = (Inr (length h), h @ [Instance c d])"
    using assms Cons by (simp add: init_def validate_def alloc_def)
  then show ?thesis using i l by auto
qed

lemma get_matches_result:
  assumes "instance_at h self = Some (c, l)" and "list_at h l = Some xs"
    and "DATA_CLS c = Some dec"
  shows "\<exists>a l' k. get_matches h self fs m = (Inr a, h @ k) \<and> length h \<le> a
           \<and> instance_at (h @ k) a = Some (c, l') \<and> length h \<le> l'
           \<and> list_at (h @ k) l' = Some (filter (\<lambda>x. m (map (\<lambda>f. f x) fs)) xs)"
proof -
  let ?ys = "filter (\<lambda>x. m (map (\<lambda>f. f x) fs)) xs"
  let ?h1 = "h @ [ListObj ?ys]"
  have "list_at ?h1 (length h) = Some ?ys" by (rule list_at_new)
  from init_some [OF assms(3) this]
  obtain a l' k where i: "init ?h1 c (Some (length h)) = (Inr a, ?h1 @ k)"
    and a: "length ?h1 \<le> a" and inst: "instance_at (?h1 @ k) a = Some (c, l')"
    and l': "l' = length h \<or> length ?h1 \<le> l'" and ys: "list_at (?h1 @ k) l' = Some ?ys"
    by blast
  have g: "get_matches h self fs m = (Inr a, h @ ([ListObj ?ys] @ k))"
    using assms i by (simp add: get_matches_def alloc_def)
  have "length h \<le> a" using a by simp
  moreover have "length h \<le> l'" using l' by auto
  ultimately show ?thesis using g inst ys by (metis append.assoc)
qed

lemma is_containerE:
  assumes "is_container h self"
  obtains c l xs dec where "instance_at h self = Some (c, l)" and "list_at h l = Some xs"
    and "DATA_CLS c = Some dec" and "records h self = Some xs" and "class_of h self = Some c"
  using assms by (auto simp: is_container_def records_def class_of_def split: option.splits)

lemma records_append:
  assumes "is_container h self"
  shows "records (h @ k) self = records h self"
proof -
  from assms obtain c l xs where i: "instance_at h self = Some (c, l)"
    and l: "list_at h l = Some xs"
    by (rule is_containerE)
  have "instance_at (h @ k) self = Some (c, l)"
    using i instance_at_bound [OF i] by (simp add: instance_at_append)
  moreover have "list_at (h @ k) l = Some xs"
    using l list_at_bound [OF l] by (simp add: list_at_append)
  ultimately show ?thesis using i l by (simp add: records_def)
qed

lemma matches_filter:
  assumes "is_container h self" and "records h self = Some xs"
  shows "matches h self fs m = Some (filter (\<lambda>x. m (map (\<lambda>f. f x) fs)) xs)"
proof -
  from assms(1) obtain c l xs' dec where i: "instance_at h self = Some (c, l)"
    and l: "list_at h l = Some xs'" and d: "DATA_CLS c = Some dec" and r: "records h self = Some xs'"
    by (rule is_containerE)
  from get_matches_result [OF i l d, of fs m] obtain a l' k where
    "get_matches h self fs m = (Inr a, h @ k)" "instance_at (h @ k) a = Some (c, l')"
    "list_at (h @ k) l' = Some (filter (\<lambda>x. m (map (\<lambda>f. f x) fs)) xs')"
    by blast
  then show ?thesis using r assms(2) by (simp add: matches_def records_def)
qed

lemma py_all_imp_any: "bs \<noteq> [] \<Longrightarrow> py_all bs \<Longrightarrow> py_any bs"
  by (cases bs) auto

text \<open>The store of the examples.\<close>

lemma tags_heap_container: "is_container tags_heap 1"
  by (simp add: is_container_def tags_heap_def instance_at_def list_at_def Tags_def LocalizedTags_def)

lemma Tags_bound: "DATA_CLS Tags = Some (NamedRelativePoint_from_dict (\<lambda>j. case j of JStr s \<Rightarrow> s | _ \<Rightarrow> []) Inr)"
  by (simp add: Tags_def LocalizedTags_def)

subsection \<open>Filtering\<close>

text \<open>
  C2 (amended). For every container and every non-empty list of filters, the records
  \<open>get_matches\<close> returns under \<open>all\<close> are among the records it returns under \<open>any\<close>
  for the same filters and the same records.
\<close>
theorem all_matches_within_any_matches:
  assumes "is_container h self" and "filters \<noteq> []"
  shows "all_within_any h self filters"
proof -
  from assms(1) obtain xs where r: "records h self = Some xs" by (rule is_containerE)
  have "py_any (map (\<lambda>f. f x) filters)" if "py_all (map (\<lambda>f. f x) filters)" for x
    using that assms(2) by (intro py_all_imp_any) simp_all
  then show ?thesis
    by (auto simp: all_within_any_def matches_filter [OF assms(1) r])
qed

theorem all_matches_within_any_matches_witness:
  "is_container tags_heap 1 \<and> [is_left, is_right] \<noteq> [] \<and> all_within_any tags_heap 1 [is_left, is_right]"
  using all_matches_within_any_matches [of tags_heap 1 "[is_left, is_right]"] tags_heap_container
  by simp

text \<open>
  With no filter, \<open>all\<close> keeps both records of the example and \<open>any\<close> keeps none.
\<close>

theorem all_matches_outside_any_matches_no_filter:
  "\<not> all_within_any tags_heap 1 []"
  by (simp add: all_within_any_def matches_def get_matches_def init_def validate_def alloc_def
      records_def instance_at_def list_at_def tags_heap_def Tags_def LocalizedTags_def)

text \<open>
  C7. For every container and every pair of filters \<open>[p1, p2]\<close>, \<open>get_matches\<close> under
  \<open>any\<close> returns exactly the union of the records matched by \<open>p1\<close> alone and the records
  matched by \<open>p2\<close> alone, in the order of the container.
\<close>
theorem any_matches_is_union:
  assumes "is_container h self"
  shows "\<exists>xs ys y1 y2. records h self = Some xs
           \<and> matches h self [p1, p2] py_any = Some ys
           \<and> matches h self [p1] py_any = Some y1
           \<and> matches h self [p2] py_any = Some y2
           \<and> set ys = set y1 \<union> set y2
           \<and> ys = filter (\<lambda>x. x \<in> set y1 \<or> x \<in> set y2) xs"
proof -
  from assms(1) obtain xs where r: "records h self = Some xs" by (rule is_containerE)
  show ?thesis
    by (auto simp: matches_filter [OF assms r] r intro: filter_cong)
qed

theorem any_matches_is_union_witness:
  "is_container tags_heap 1 \<and>
   matches tags_heap 1 [is_left, is_right] py_any = Some [tag_left, tag_right] \<and>
   matches tags_heap 1 [is_left] py_any = Some [tag_left] \<and>
   matches tags_heap 1 [is_right] py_any = Some [tag_right]"
  using any_matches_is_union [of tags_heap 1 is_left is_right] tags_heap_container
  by (simp add: matches_def get_matches_def init_def validate_def alloc_def
      records_def instance_at_def list_at_def tags_heap_def Tags_def LocalizedTags_def
      is_left_def is_right_def tag_left_def tag_right_def)

text \<open>
  C10. With an empty list of filters, \<open>get_matches\<close> under \<open>any\<close> returns an empty
  container whatever the records are, and under \<open>all\<close> a container that holds every
  record.
\<close>
theorem no_filter_matches:
  assumes "is_container h self"
  shows "matches h self [] py_any = Some [] \<and> matches h self [] py_all = records h self"
proof -
  from assms(1) obtain xs where r: "records h self = Some xs" by (rule is_containerE)
  show ?thesis by (simp add: matches_filter [OF assms r] r)
qed

theorem no_filter_matches_witness:
  "is_container tags_heap 1 \<and> matches tags_heap 1 [] py_any = Some []
   \<and> matches tags_heap 1 [] py_all = Some [tag_left, tag_right]"
  using no_filter_matches [of tags_heap 1] tags_heap_container
  by (simp add: records_def instance_at_def list_at_def tags_heap_def)

text \<open>
  C9. For every container, list of filters and combinator, \<open>get_matches\<close> returns a new
  instance (an address the store did not have) of the receiver's class and changes no
  object of the store, so the receiver's records are what they were; \<open>count_matches\<close>
  leaves the receiver unchanged too.
\<close>
theorem get_matches_new_container_receiver_unchanged:
  assumes "is_container h self"
  shows "\<exists>a k n k'. get_matches h self filters match = (Inr a, h @ k)
           \<and> length h \<le> a
           \<and> class_of (h @ k) a = class_of h self
           \<and> records (h @ k) self = records h self
           \<and> count_matches h self filters match = (Inr n, h @ k')
           \<and> records (h @ k') self = records h self"
proof -
  from assms obtain c l xs dec where i: "instance_at h self = Some (c, l)"
    and l: "list_at h l = Some xs" and d: "DATA_CLS c = Some dec"
    and cl: "class_of h self = Some c"
    by (rule is_containerE)
  from get_matches_result [OF i l d, of filters match] obtain a l' k where
    g: "get_matches h self filters match = (Inr a, h @ k)" and a: "length h \<le> a"
    and inst: "instance_at (h @ k) a = Some (c, l')"
    and ys: "list_at (h @ k) l' = Some (filter (\<lambda>x. match (map (\<lambda>f. f x) filters)) xs)"
    by blast
  have "class_of (h @ k) a = class_of h self"
    using inst cl by (simp add: class_of_def)
  moreover have "count_matches h self filters match
      = (Inr (length (filter (\<lambda>x. match (map (\<lambda>f. f x) filters)) xs)), h @ k)"
    using g inst ys by (simp add: count_matches_def records_def)
  ultimately show ?thesis
    using g a records_append [OF assms] by blast
qed

theorem get_matches_new_container_receiver_unchanged_witness:
  "is_container tags_heap 1 \<and>
   (\<exists>a k n k'. get_matches tags_heap 1 [is_left] py_any = (Inr a, tags_heap @ k)
           \<and> length tags_heap \<le> a
           \<and> class_of (tags_heap @ k) a = class_of tags_heap 1
           \<and> records (tags_heap @ k) 1 = records tags_heap 1
           \<and> count_matches tags_heap 1 [is_left] py_any = (Inr n, tags_heap @ k')
           \<and> records (tags_heap @ k') 1 = records tags_heap 1)"
  using get_matches_new_container_receiver_unchanged [of tags_heap 1 "[is_left]" py_any]
    tags_heap_container
  by simp

subsection \<open>Decoding and construction\<close>

text \<open>
  C3 (amended). For every container class with a bound record type, decoding a dictionary
  whose \<open>data\<close> entry is an empty list yields a new, empty container; decoding a
  dictionary with no \<open>data\<close> entry raises \<open>KeyError\<close> and creates nothing.
\<close>
theorem from_dict_empty_or_missing_data:
  assumes "DATA_CLS c = Some dec"
  shows "(getitem d ''data'' = Inr (JList []) \<longrightarrow>
            (\<exists>a k. from_dict h c d = (Inr a, h @ k) \<and> length h \<le> a \<and> records (h @ k) a = Some []))
         \<and> (getitem d ''data'' = Inl KeyError \<longrightarrow> from_dict h c d = (Inl KeyError, h))"
proof (intro conjI impI)
  assume e: "getitem d ''data'' = Inr (JList [])"
  have "list_at (h @ [ListObj []]) (length h) = Some []" by (rule list_at_new)
  from init_some [OF assms this] obtain a l k where
    i: "init (h @ [ListObj []]) c (Some (length h)) = (Inr a, (h @ [ListObj []]) @ k)"
    and a: "length (h @ [ListObj []]) \<le> a"
    and inst: "instance_at ((h @ [ListObj []]) @ k) a = Some (c, l)"
    and l: "list_at ((h @ [ListObj []]) @ k) l = Some []"
    by blast
  have "from_dict h c d = (Inr a, h @ ([ListObj []] @ k))"
    using assms e i by (simp add: from_dict_def py_iter_def alloc_def)
  moreover have "records (h @ ([ListObj []] @ k)) a = Some []"
    using inst l by (simp add: records_def)
  moreover have "length h \<le> a" using a by simp
  ultimately show "\<exists>a k. from_dict h c d = (Inr a, h @ k) \<and> length h \<le> a \<and> records (h @ k) a = Some []"
    by blast
next
  assume "getitem d ''data'' = Inl KeyError"
  then show "from_dict h c d = (Inl KeyError, h)"
    using assms by (simp add: from_dict_def)
qed

theorem from_dict_empty_or_missing_data_witness:
  "(\<exists>a k. from_dict [] Tags (JDict [(''data'', JList [])]) = (Inr a, [] @ k) \<and> records ([] @ k) a = Some [])
   \<and> from_dict [] Tags (JDict []) = (Inl KeyError, [])"
  using from_dict_empty_or_missing_data [OF Tags_bound, of "JDict [(''data'', JList [])]" "[]"]
    from_dict_empty_or_missing_data [OF Tags_bound, of "JDict []" "[]"]
  by (simp add: getitem_def)

text \<open>Decoding the empty dictionary fails; it does not yield an empty container.\<close>

theorem from_dict_missing_data_raises:
  "from_dict [] Tags (JDict []) = (Inl KeyError, [])"
  by (simp add: from_dict_def getitem_def Tags_def LocalizedTags_def)

text \<open>
  C4. For every container class whose record type is unset, the constructor and
  \<open>from_dict\<close> raise \<open>ValueError\<close> whatever their argument is, with the store as it was:
  no record is stored, and no entry of the dictionary is read or decoded.
\<close>
theorem unbound_container_fails_fast:
  assumes "DATA_CLS c = None"
  shows "init h c data = (Inl ValueError, h) \<and> from_dict h c d = (Inl ValueError, h)"
  using assms by (simp add: init_def validate_def from_dict_def)

theorem unbound_container_fails_fast_witness:
  "DATA_CLS (DataContainer :: json NamedRelativePoint cls) = None
   \<and> init tags_heap DataContainer (Some 0) = (Inl ValueError, tags_heap)
   \<and> from_dict tags_heap DataContainer (JDict [(''data'', JList [])]) = (Inl ValueError, tags_heap)"
  using unbound_container_fails_fast [of "DataContainer :: json NamedRelativePoint cls" tags_heap "Some 0" "JDict [(''data'', JList [])]"]
  by (simp add: DataContainer_def)

section \<open>Properties of the pipelines\<close>

subsection \<open>Statements and their traces\<close>

lemma emits_skip: "emits P skip"
  by (simp add: emits_def skip_def)

lemma emits_act: "P e \<Longrightarrow> emits P (act w e)"
  by (auto simp: emits_def act_def split: option.splits)

lemma emitsD:
  assumes "emits P m"
  obtains r s' tr' where "m (s, tr) = (r, (s', tr @ tr'))" and "list_all P tr'"
proof -
  from assms have "\<exists>r s' tr'. m (s, tr) = (r, (s', snd (s, tr) @ tr')) \<and> list_all P tr'"
    unfolding emits_def by (rule spec)
  then show ?thesis using that by auto
qed

lemma emits_seq:
  assumes "emits P m" and "emits P k"
  shows "emits P (seq m k)"
  unfolding emits_def
proof
  fix \<sigma> :: "'a \<times> event list"
  from assms(1) obtain r s1 t1 where m: "m \<sigma> = (r, (s1, snd \<sigma> @ t1))" and t1: "list_all P t1"
    unfolding emits_def by blast
  from assms(2) obtain r2 s2 t2 where k: "k (s1, snd \<sigma> @ t1) = (r2, (s2, (snd \<sigma> @ t1) @ t2))"
    and t2: "list_all P t2"
    by (rule emitsD)
  show "\<exists>r s' tr'. seq m k \<sigma> = (r, s', snd \<sigma> @ tr') \<and> list_all P tr'"
  proof (cases r)
    case None
    then have "seq m k \<sigma> = (r2, (s2, snd \<sigma> @ (t1 @ t2)))" using m k by (simp add: seq_def)
    moreover have "list_all P (t1 @ t2)" using t1 t2 by simp
    ultimately show ?thesis by blast
  next
    case (Some e)
    then have "seq m k \<sigma> = (Some e, (s1, snd \<sigma> @ t1))" using m by (simp add: seq_def)
    then show ?thesis using t1 by blast
  qed
qed

lemma emits_try_finally:
  assumes "emits P m" and "emits P k"
  shows "emits P (try_finally m k)"
  unfolding emits_def
proof
  fix \<sigma> :: "'a \<times> event list"
  from assms(1) obtain r s1 t1 where m: "m \<sigma> = (r, (s1, snd \<sigma> @ t1))" and t1: "list_all P t1"
    unfolding emits_def by blast
  from assms(2) obtain r2 s2 t2 where k: "k (s1, snd \<sigma> @ t1) = (r2, (s2, (snd \<sigma> @ t1) @ t2))"
    and t2: "list_all P t2"
    by (rule emitsD)
  have "try_finally m k \<sigma> = ((case r2 of None \<Rightarrow> r | Some e \<Rightarrow> Some e), (s2, snd \<sigma> @ (t1 @ t2)))"
    using m k by (simp add: try_finally_def split: option.splits)
  moreover have "list_all P (t1 @ t2)" using t1 t2 by simp
  ultimately show "\<exists>r s' tr'. try_finally m k \<sigma> = (r, s', snd \<sigma> @ tr') \<and> list_all P tr'"
    by blast
qed

lemma emits_if_path: "(\<And>q. emits P (f q)) \<Longrightarrow> emits P (if_path p f)"
  by (cases p) (simp_all add: emits_skip)

lemma emits_if: "emits P m \<Longrightarrow> emits P k \<Longrightarrow> emits P (if b then m else k)"
  by simp

lemma emits_call_reset: "P Reset \<Longrightarrow> emits P (call_reset alg)"
  by (auto simp: emits_def call_reset_def split: option.splits prod.splits)

lemma emits_call_process_frame: "P (ProcessFrame n) \<Longrightarrow> emits P (call_process_frame alg n img)"
  by (auto simp: emits_def call_process_frame_def split: sum.splits prod.splits)

lemma emits_close_var: "P (Close h) \<Longrightarrow> emits P (close_var w h)"
  by (auto simp: emits_def close_var_def act_def raise_def split: option.splits)

lemma emits_for_frames:
  assumes "\<And>n. P (Read n)" and "\<And>n img. emits P (body n img)"
  shows "emits P (for_frames w n imgs body)"
proof (induction imgs arbitrary: n)
  case Nil
  show ?case by (simp add: emits_skip)
next
  case (Cons img imgs)
  show ?case by (simp add: emits_seq emits_act assms Cons.IH)
qed

lemma emits_with_VideoProcessor:
  assumes "\<And>e. P e" and "\<And>n img. emits P (body n img)"
  shows "emits P (with_VideoProcessor w inp vid body)"
  unfolding with_VideoProcessor_def
  by (intro emits_seq emits_try_finally emits_if_path emits_act emits_for_frames assms)

subsection \<open>The first frame of the dense motion estimator\<close>

text \<open>
  C6. The first frame processed after a reset has no stored predecessor; its output is
  the flow OpenCV computes between the grey image of that frame and itself, with the
  parameters of the object, and the frame becomes the stored predecessor. The missing
  predecessor raises nothing: the outcome is the outcome of that call.
\<close>

theorem first_frame_flow_against_itself:
  assumes "cvtColor_BGR2GRAY cv img = Inr g"
  shows "Farneback_process_frame cv (snd (Farneback_reset s)) img =
           (calcOpticalFlowFarneback cv g g (pyramid_scale s) (pyramid_levels s) (window_size s)
              (iterations s) (poly_n s) (poly_sigma s) (flags s),
            s\<lparr>prev_frame := Some g\<rparr>)"
  using assms by (simp add: Farneback_process_frame_def Farneback_reset_def Let_def split: sum.splits)

theorem first_frame_flow_against_itself_witness:
  "cvtColor_BGR2GRAY toy_flow 7 = Inr 7 \<and>
   Farneback_process_frame toy_flow (snd (Farneback_reset (Farneback_init toy_flow 1 3 15 3 7 2 False))) 7 =
     (Inr 0, (Farneback_init toy_flow 1 3 15 3 7 2 False)\<lparr>prev_frame := Some 7\<rparr>)"
  using first_frame_flow_against_itself [of toy_flow 7 7 "Farneback_init toy_flow 1 3 15 3 7 2 False"]
  by (simp add: toy_flow_def Farneback_init_def)

subsection \<open>Output directories\<close>

lemma ensured_after_quiet:
  assumes "list_all (\<lambda>e. \<not> is_stream_event e) xs"
  shows "ensured_before_stream p (xs @ EnsureBasedir p # ys)" and "ensured_before_stream p xs"
  using assms by (induction xs) auto

lemma quiet_EnsureBasedir: "emits (\<lambda>e. \<not> is_stream_event e) (if_path q (\<lambda>p. act w (EnsureBasedir p)))"
  by (intro emits_if_path emits_act) simp

text \<open>
  A run that starts with some directories and then ensures the directory of \<open>p\<close> ensures it
  first, whatever follows.
\<close>

lemma ensure_then_rest:
  assumes "emits (\<lambda>e. \<not> is_stream_event e) m" and "emits (\<lambda>e. True) k"
  shows "dir_ensured_first p (run (seq m (seq (act w (EnsureBasedir p)) k)) s)"
proof -
  from assms(1) obtain r1 s1 t1 where m: "m (s, []) = (r1, (s1, [] @ t1))"
    and t1: "list_all (\<lambda>e. \<not> is_stream_event e) t1"
    by (rule emitsD)
  from assms(2) obtain r2 s2 t2 where
    k: "k (s1, t1 @ [EnsureBasedir p]) = (r2, (s2, (t1 @ [EnsureBasedir p]) @ t2))"
    by (rule emitsD)
  show ?thesis
  proof (cases "r1 = None \<and> fails w (EnsureBasedir p) = None")
    case True
    then have "run (seq m (seq (act w (EnsureBasedir p)) k)) s = (r2, t1 @ EnsureBasedir p # t2)"
      using m k by (simp add: run_def seq_def act_def)
    then show ?thesis using ensured_after_quiet(1) [OF t1] by (simp add: dir_ensured_first_def)
  next
    case False
    then have "\<exists>e. run (seq m (seq (act w (EnsureBasedir p)) k)) s = (Some e, t1)"
      using m by (cases r1) (auto simp: run_def seq_def act_def)
    then show ?thesis using ensured_after_quiet(2) [OF t1] by (auto simp: dir_ensured_first_def)
  qed
qed

lemma seq_skip: "seq skip k = k"
  by (rule ext) (simp add: seq_def skip_def)

lemma Dense_cart_ensured:
  assumes "p \<noteq> []"
  shows "dir_ensured_first p (run (DenseOpticalFlow_process w alg inp (Some p) polar vid) s)"
proof -
  have "emits (\<lambda>e. True) (seq (if_path polar (\<lambda>p. act w (EnsureBasedir p)))
    (seq (call_reset alg)
         (with_VideoProcessor w inp vid (\<lambda>n img.
            seq (call_process_frame alg n img)
           (seq (if_path (Some p) (\<lambda>p. act w (Save p n)))
                (if \<not> truthy polar \<and> \<not> truthy vid then skip
                 else seq (if_path polar (\<lambda>p. act w (Save p n)))
                          (if_path vid (\<lambda>p. act w (Write OutWriter n)))))))))"
    by (intro emits_seq emits_if_path emits_act emits_call_reset emits_with_VideoProcessor
        emits_call_process_frame emits_if emits_skip) simp_all
  from ensure_then_rest [OF emits_skip this, of p w s] show ?thesis
    using assms by (simp add: DenseOpticalFlow_process_def seq_skip)
qed

lemma Dense_polar_ensured:
  assumes "p \<noteq> []"
  shows "dir_ensured_first p (run (DenseOpticalFlow_process w alg inp cart (Some p) vid) s)"
proof -
  have "emits (\<lambda>e. True)
    (seq (call_reset alg)
         (with_VideoProcessor w inp vid (\<lambda>n img.
            seq (call_process_frame alg n img)
           (seq (if_path cart (\<lambda>p. act w (Save p n)))
                (if \<not> truthy (Some p) \<and> \<not> truthy vid then skip
                 else seq (if_path (Some p) (\<lambda>p. act w (Save p n)))
                          (if_path vid (\<lambda>p. act w (Write OutWriter n))))))))"
    by (intro emits_seq emits_if_path emits_act emits_call_reset emits_with_VideoProcessor
        emits_call_process_frame emits_if emits_skip) simp_all
  from ensure_then_rest [OF quiet_EnsureBasedir this, of p cart w w s] show ?thesis
    using assms by (simp add: DenseOpticalFlow_process_def)
qed

lemma BackgroundSubtractor_emits:
  "emits (\<lambda>e. True)
    (seq (act w (Open Reader inp))
         (try_finally
            (seq (if_path fgvid (\<lambda>p. act w (Open FgWriter p)))
            (seq (if_path bgvid (\<lambda>p. act w (Open BgWriter p)))
            (seq (call_reset alg)
                 (for_frames w 1 (video w inp) (\<lambda>n img.
                    seq (call_process_frame alg n img)
                   (seq (if_path fgmask (\<lambda>p. act w (Save p n)))
                   (seq (if_path fgvid (\<lambda>p. act w (Write FgWriter n)))
                        (if_path bgvid (\<lambda>p. act w (Write BgWriter n))))))))))
            (seq (if_path fgvid (\<lambda>p. close_var w FgWriter))
                 (if_path bgvid (\<lambda>p. close_var w BgWriter)))))"
  by (intro emits_seq emits_try_finally emits_if_path emits_act emits_call_reset emits_for_frames
      emits_call_process_frame emits_close_var) simp_all

lemma BackgroundSubtractor_mask_ensured:
  assumes "p \<noteq> []"
  shows "dir_ensured_first p (run (BackgroundSubtractor_process w alg inp (Some p) fgvid bgvid) s)"
  using ensure_then_rest [OF emits_skip BackgroundSubtractor_emits, of p w w inp fgvid bgvid alg "Some p" s] assms
  by (simp add: BackgroundSubtractor_process_def seq_skip)

lemma detector_emits:
  "emits (\<lambda>e. True)
    (seq (call_reset alg)
         (with_VideoProcessor w inp vid (\<lambda>n img.
            seq (call_process_frame alg n img)
           (seq (if_path arr (\<lambda>p. act w (Save p n)))
                (if_path vid (\<lambda>p. act w (Write OutWriter n)))))))"
  by (intro emits_seq emits_if_path emits_act emits_call_reset emits_with_VideoProcessor
      emits_call_process_frame) simp_all

lemma EdgeDetector_masks_ensured:
  assumes "p \<noteq> []"
  shows "dir_ensured_first p (run (EdgeDetector_process w alg inp (Some p) vid) s)"
  using ensure_then_rest [OF emits_skip detector_emits, of p w alg w inp vid "Some p" s] assms
  by (simp add: EdgeDetector_process_def seq_skip)

lemma FeaturePointDetector_coords_ensured:
  assumes "p \<noteq> []"
  shows "dir_ensured_first p (run (FeaturePointDetector_process w alg inp (Some p) vid) s)"
  using ensure_then_rest [OF emits_skip detector_emits, of p w alg w inp vid "Some p" s] assms
  by (simp add: FeaturePointDetector_process_def seq_skip)

text \<open>
  C8. For every array-sink path template supplied to a pipeline's \<open>process\<close> (a
  non-empty path, in any of the four families), the directory of the path is ensured
  before the input stream is opened or iterated, so before any frame is read, processed or
  written; a run that completes has ensured it.
\<close>

theorem array_sink_directory_ensured_first:
  assumes "p \<noteq> []"
  shows "dir_ensured_first p (run (DenseOpticalFlow_process w alg inp (Some p) polar vid) s)
       \<and> dir_ensured_first p (run (DenseOpticalFlow_process w alg inp cart (Some p) vid) s)
       \<and> dir_ensured_first p (run (BackgroundSubtractor_process w alg inp (Some p) fgvid bgvid) s)
       \<and> dir_ensured_first p (run (EdgeDetector_process w alg inp (Some p) vid) s)
       \<and> dir_ensured_first p (run (FeaturePointDetector_process w alg inp (Some p) vid) s)"
  using assms
  by (simp add: Dense_cart_ensured Dense_polar_ensured BackgroundSubtractor_mask_ensured
      EdgeDetector_masks_ensured FeaturePointDetector_coords_ensured)

theorem array_sink_directory_ensured_first_witness:
  "''cart/%05d.npy'' \<noteq> []
   \<and> run (DenseOpticalFlow_process calm (FarnebackDenseOpticalFlow toy_flow) ''in.mp4''
          (Some ''cart/%05d.npy'') None (Some ''out.mp4''))
        (Farneback_init toy_flow 1 3 15 3 7 2 False)
      = (None,
         [EnsureBasedir ''cart/%05d.npy'', Reset, Open Reader ''in.mp4'',
          Open OutWriter ''out.mp4'', Read 1, ProcessFrame 1, Save ''cart/%05d.npy'' 1,
          Write OutWriter 1, Read 2, ProcessFrame 2, Save ''cart/%05d.npy'' 2,
          Write OutWriter 2, Close OutWriter, Close Reader])
   \<and> ensured_before_stream ''cart/%05d.npy''
        (snd (run (DenseOpticalFlow_process calm (FarnebackDenseOpticalFlow toy_flow) ''in.mp4''
          (Some ''cart/%05d.npy'') None (Some ''out.mp4''))
        (Farneback_init toy_flow 1 3 15 3 7 2 False)))
   \<and> EnsureBasedir ''cart/%05d.npy''
        \<in> set (snd (run (DenseOpticalFlow_process calm (FarnebackDenseOpticalFlow toy_flow)
          ''in.mp4'' (Some ''cart/%05d.npy'') None (Some ''out.mp4''))
        (Farneback_init toy_flow 1 3 15 3 7 2 False)))"
proof -
  have "run (DenseOpticalFlow_process calm (FarnebackDenseOpticalFlow toy_flow) ''in.mp4''
          (Some ''cart/%05d.npy'') None (Some ''out.mp4''))
        (Farneback_init toy_flow 1 3 15 3 7 2 False)
      = (None,
         [EnsureBasedir ''cart/%05d.npy'', Reset, Open Reader ''in.mp4'',
          Open OutWriter ''out.mp4'', Read 1, ProcessFrame 1, Save ''cart/%05d.npy'' 1,
          Write OutWriter 1, Read 2, ProcessFrame 2, Save ''cart/%05d.npy'' 2,
          Write OutWriter 2, Close OutWriter, Close Reader])"
    by (simp add: DenseOpticalFlow_process_def with_VideoProcessor_def run_def seq_def skip_def
      act_def try_finally_def call_reset_def call_process_frame_def calm_def toy_flow_def
      FarnebackDenseOpticalFlow_def Farneback_reset_def Farneback_process_frame_def
      Farneback_init_def)
  then show ?thesis
    using array_sink_directory_ensured_first [of "''cart/%05d.npy''" calm
        "FarnebackDenseOpticalFlow toy_flow" "''in.mp4''" None "Some ''out.mp4''"
        "Farneback_init toy_flow 1 3 15 3 7 2 False"]
    by (simp add: dir_ensured_first_def)
qed

subsection \<open>A backend without background models\<close>

lemma reset_fails_before_frames:
  assumes "reset alg s = (Some err, s')"
  shows "fst (run (BackgroundSubtractor_process w alg inp fgmask fgvid bgvid) s) \<noteq> None
       \<and> list_all (\<lambda>e. \<not> is_frame_event e)
            (snd (run (BackgroundSubtractor_process w alg inp fgmask fgvid bgvid) s))
       \<and> ((\<forall>e. \<not> is_frame_event e \<longrightarrow> fails w e = None) \<longrightarrow>
            fst (run (BackgroundSubtractor_process w alg inp fgmask fgvid bgvid) s) = Some err)"
  using assms
  by (cases fgmask; cases fgvid; cases bgvid)
     (auto simp: BackgroundSubtractor_process_def run_def seq_def skip_def act_def
        try_finally_def raise_def call_reset_def close_var_def bound_def
        split: option.splits)

text \<open>
  C5. For every run of the MOG2 or the KNN variant on a backend without the factory
  function, \<open>process\<close> raises, and no frame is read or processed and no per-frame output
  is written before it does; when the calls made before the reset and the closing of the
  writers succeed, the exception is \<open>BackgroundSubtractorError\<close>.
\<close>

theorem unsupported_backend_raises_before_any_frame:
  assumes "alg = MOG2BackgroundSubtractor cv
             \<and> createBackgroundSubtractorMOG2 cv (history s) (threshold s) (detect_shadows s)
                 = Inl AttributeError
         \<or> alg = KNNBackgroundSubtractor cv
             \<and> createBackgroundSubtractorKNN cv (history s) (threshold s) (detect_shadows s)
                 = Inl AttributeError"
  shows "fst (run (BackgroundSubtractor_process w alg inp fgmask fgvid bgvid) s) \<noteq> None
       \<and> list_all (\<lambda>e. \<not> is_frame_event e)
            (snd (run (BackgroundSubtractor_process w alg inp fgmask fgvid bgvid) s))
       \<and> ((\<forall>e. \<not> is_frame_event e \<longrightarrow> fails w e = None) \<longrightarrow>
            fst (run (BackgroundSubtractor_process w alg inp fgmask fgvid bgvid) s)
              = Some BackgroundSubtractorError)"
proof -
  have "reset alg s = (Some BackgroundSubtractorError, s)"
    using assms
    by (auto simp: MOG2BackgroundSubtractor_def KNNBackgroundSubtractor_def MOG2_reset_def
        KNN_reset_def)
  then show ?thesis by (rule reset_fails_before_frames)
qed

theorem unsupported_backend_raises_before_any_frame_witness:
  "createBackgroundSubtractorMOG2 opencv2 (history (subtractor_init 500 16 (- 1) False))
      (threshold (subtractor_init 500 16 (- 1) False))
      (detect_shadows (subtractor_init 500 16 (- 1) False)) = Inl AttributeError
   \<and> run (BackgroundSubtractor_process calm (MOG2BackgroundSubtractor opencv2) ''in.mp4''
          (Some ''masks/%05d.npy'') (Some ''fg.mp4'') (Some ''bg.mp4''))
        (subtractor_init 500 16 (- 1) False)
      = (Some BackgroundSubtractorError,
         [EnsureBasedir ''masks/%05d.npy'', Open Reader ''in.mp4'', Open FgWriter ''fg.mp4'',
          Open BgWriter ''bg.mp4'', Close FgWriter, Close BgWriter])"
  using unsupported_backend_raises_before_any_frame
    [of "MOG2BackgroundSubtractor opencv2" opencv2 "subtractor_init 500 16 (- 1) False"
        calm "''in.mp4''" "Some ''masks/%05d.npy''" "Some ''fg.mp4''" "Some ''bg.mp4''"]
  by (simp add: BackgroundSubtractor_process_def run_def seq_def skip_def act_def
      try_finally_def raise_def call_reset_def close_var_def bound_def calm_def opencv2_def
      MOG2BackgroundSubtractor_def MOG2_reset_def subtractor_init_def)

subsection \<open>Release of the writers\<close>















end
